theory Spec2Isabelle
  imports Complex_Main
begin

section \<open>ColorUtils: hexadecimal colour strings\<close>

text \<open>
  The object returned by \<^verbatim>\<open>ColorUtils.hexToRgb\<close>: the fields \<^verbatim>\<open>r\<close>, \<^verbatim>\<open>g\<close>,
  \<^verbatim>\<open>b\<close> of the source, written out so that they do not capture variable names.
\<close>

record rgb =
  red :: int
  green :: int
  blue :: int

text \<open>
  The character class \<^verbatim>\<open>[a-f\d]\<close> under the flag \<^verbatim>\<open>i\<close>: the decimal digits and
  the letters a to f in either case.
\<close>

definition isHexDigit :: "char \<Rightarrow> bool" where
  "isHexDigit c = (c \<in> set ''0123456789abcdefABCDEF'')"

definition hexValue :: "char \<Rightarrow> nat" where
  "hexValue c =
     (let k = (of_char c :: nat)
      in if 48 \<le> k \<and> k \<le> 57 then k - 48
         else if 97 \<le> k \<and> k \<le> 102 then k - 87
         else k - 55)"

text \<open>\<^verbatim>\<open>parseInt(s, 16)\<close> on a string of hexadecimal digits.\<close>

definition parseInt16 :: "string \<Rightarrow> int" where
  "parseInt16 s = foldl (\<lambda>acc c. 16 * acc + int (hexValue c)) 0 s"

text \<open>
  \<^verbatim>\<open>/^#?([a-f\d]{2})([a-f\d]{2})([a-f\d]{2})$/i.exec(hex)\<close>: an optional leading
  \<^verbatim>\<open>#\<close>, then exactly six hexadecimal digits up to the end of the input; the three groups
  are the digit pairs. No match gives \<^verbatim>\<open>null\<close>.
\<close>

definition stripHash :: "string \<Rightarrow> string" where
  "stripHash hex = (case hex of [] \<Rightarrow> [] | c # t \<Rightarrow> if c = CHR ''#'' then t else hex)"

definition hexToRgb :: "string \<Rightarrow> rgb option" where
  "hexToRgb hex =
     (let body = stripHash hex
      in if length body = 6 \<and> list_all isHexDigit body
         then Some \<lparr> red = parseInt16 (take 2 body),
                     green = parseInt16 (take 2 (drop 2 body)),
                     blue = parseInt16 (drop 4 body) \<rparr>
         else None)"

text \<open>
  \<^verbatim>\<open>x << n\<close>: the left operand is taken to a signed 32-bit integer, shifted, and the
  result wraps to a signed 32-bit integer again.
\<close>

definition toInt32 :: "int \<Rightarrow> int" where
  "toInt32 v = (let m = v mod 2 ^ 32 in if m \<ge> 2 ^ 31 then m - 2 ^ 32 else m)"

definition shl32 :: "int \<Rightarrow> nat \<Rightarrow> int" where
  "shl32 v n = toInt32 (toInt32 v * 2 ^ (n mod 32))"

text \<open>\<^verbatim>\<open>Number.prototype.toString(16)\<close> on an integer: lower-case digits, a sign when negative.\<close>

definition hexDigitChar :: "nat \<Rightarrow> char" where
  "hexDigitChar d = ''0123456789abcdef'' ! d"

function toString16nat :: "nat \<Rightarrow> string" where
  "toString16nat n =
     (if n < 16 then [hexDigitChar n]
      else toString16nat (n div 16) @ [hexDigitChar (n mod 16)])"
  by pat_completeness auto
termination
  by (relation "measure id") auto

declare toString16nat.simps [simp del]

definition toString16 :: "int \<Rightarrow> string" where
  "toString16 v = (if v < 0 then CHR ''-'' # toString16nat (nat (- v)) else toString16nat (nat v))"

text \<open>
  \<^verbatim>\<open>"#" + ((1 << 24) + (r << 16) + (g << 8) + b).toString(16).slice(1)\<close>
\<close>

definition rgbToHex :: "int \<Rightarrow> int \<Rightarrow> int \<Rightarrow> string" where
  "rgbToHex r g b =
     ''#'' @ drop 1 (toString16 (shl32 1 24 + shl32 r 16 + shl32 g 8 + b))"


text \<open>
  \<^verbatim>\<open>String.prototype.toLowerCase\<close> on ASCII, used to state what the conversion to
  a colour and back does to the letters of a colour string.
\<close>

definition toLowerAscii :: "char \<Rightarrow> char" where
  "toLowerAscii c =
     (case map_of (zip ''ABCDEFGHIJKLMNOPQRSTUVWXYZ'' ''abcdefghijklmnopqrstuvwxyz'') c of
        Some l \<Rightarrow> l | None \<Rightarrow> c)"

section \<open>The 2D canvas context\<close>

text \<open>
  The drawing calls of the program go to the browser's 2D canvas. The part of that
  interface the program uses is modelled after the drawing model of the canvas standard and the
  compositing rules it refers to: a shape or image is rendered to a transparent source
  bitmap, the context's filter is applied to it, its alpha is multiplied by
  \<^verbatim>\<open>globalAlpha\<close>, and the result is composited onto the canvas bitmap with the
  current \<^verbatim>\<open>globalCompositeOperation\<close>.

  Numbers are idealised as reals, so no rounding to 8-bit channels or to doubles takes
  place. A pixel holds colour channels premultiplied by its alpha, all in the unit
  interval; a colour, as parsed from a style string, holds them unmultiplied.
\<close>

record pixel =
  pxR :: real
  pxG :: real
  pxB :: real
  pxA :: real

record color =
  colR :: real
  colG :: real
  colB :: real
  colA :: real

definition transparent :: pixel where
  "transparent = \<lparr> pxR = 0, pxG = 0, pxB = 0, pxA = 0 \<rparr>"

definition opaqueBlack :: pixel where
  "opaqueBlack = \<lparr> pxR = 0, pxG = 0, pxB = 0, pxA = 1 \<rparr>"

definition opaqueWhite :: pixel where
  "opaqueWhite = \<lparr> pxR = 1, pxG = 1, pxB = 1, pxA = 1 \<rparr>"

definition premultiply :: "color \<Rightarrow> pixel" where
  "premultiply c =
     \<lparr> pxR = colR c * colA c, pxG = colG c * colA c, pxB = colB c * colA c, pxA = colA c \<rparr>"

definition scaleAlpha :: "real \<Rightarrow> pixel \<Rightarrow> pixel" where
  "scaleAlpha k p = \<lparr> pxR = pxR p * k, pxG = pxG p * k, pxB = pxB p * k, pxA = pxA p * k \<rparr>"

text \<open>The values of \<^verbatim>\<open>globalCompositeOperation\<close> that the program assigns or starts from.\<close>

datatype composite_op = SourceOver | SourceIn | Multiply

text \<open>
  Compositing one source pixel \<open>s\<close> onto one backdrop pixel \<open>d\<close>, on premultiplied
  channels: Porter-Duff source-over and source-in, and the multiply blend mode composited
  with source-over (where the backdrop is transparent the source shows unblended).
\<close>

definition blendChannel :: "composite_op \<Rightarrow> real \<Rightarrow> real \<Rightarrow> real \<Rightarrow> real \<Rightarrow> real" where
  "blendChannel m cs as cd ad =
     (case m of
        SourceOver \<Rightarrow> cs + cd * (1 - as)
      | SourceIn \<Rightarrow> cs * ad
      | Multiply \<Rightarrow> cs * (1 - ad) + cd * (1 - as) + cs * cd)"

definition blendPixel :: "composite_op \<Rightarrow> pixel \<Rightarrow> pixel \<Rightarrow> pixel" where
  "blendPixel m s d =
     \<lparr> pxR = blendChannel m (pxR s) (pxA s) (pxR d) (pxA d),
       pxG = blendChannel m (pxG s) (pxA s) (pxG d) (pxA d),
       pxB = blendChannel m (pxB s) (pxA s) (pxB d) (pxA d),
       pxA = (case m of SourceIn \<Rightarrow> pxA s * pxA d | _ \<Rightarrow> pxA s + pxA d * (1 - pxA s)) \<rparr>"

type_synonym bitmap = "nat \<Rightarrow> nat \<Rightarrow> pixel"

type_synonym point = "real \<times> real"

record subpath =
  points :: "point list"
  closed :: bool

datatype canvas_filter = NoFilter | Blur int

text \<open>
  A canvas with its 2D context: the dimensions of the canvas element, its bitmap (read
  at \<open>x < width\<close> and \<open>y < height\<close> only), and the context attributes the program touches.
\<close>

record context2d =
  width :: nat
  height :: nat
  bitmap :: bitmap
  globalCompositeOperation :: composite_op
  globalAlpha :: real
  fillStyle :: color
  filterAttr :: canvas_filter
  path :: "subpath list"

text \<open>
  Three services of the browser are left as parameters: the Gaussian blur behind the
  filter \<^verbatim>\<open>blur(Npx)\<close>, the parser of CSS colour strings behind the
  \<^verbatim>\<open>fillStyle\<close> setter (\<open>None\<close> for a string that is no colour), and the
  rasteriser behind \<^verbatim>\<open>fill()\<close>: the share of the pixel \<open>(x, y)\<close> that a path
  covers under the default fill rule, anti-aliasing included.
\<close>

record platform =
  gaussianBlur :: "int \<Rightarrow> bitmap \<Rightarrow> bitmap"
  parseColor :: "string \<Rightarrow> color option"
  fillCoverage :: "subpath list \<Rightarrow> nat \<Rightarrow> nat \<Rightarrow> real"

text \<open>
  \<^verbatim>\<open>document.createElement('canvas')\<close> with its width and height set, and
  \<^verbatim>\<open>getContext('2d')\<close>: a transparent bitmap and the default attributes.
\<close>

definition newContext :: "nat \<Rightarrow> nat \<Rightarrow> context2d" where
  "newContext w h =
     \<lparr> width = w, height = h, bitmap = (\<lambda>x y. transparent),
       globalCompositeOperation = SourceOver, globalAlpha = 1,
       fillStyle = \<lparr> colR = 0, colG = 0, colB = 0, colA = 1 \<rparr>,
       filterAttr = NoFilter, path = [] \<rparr>"

text \<open>The setters: a value outside the attribute's range, or an unparsable colour, is ignored.\<close>

definition setGlobalAlpha :: "real \<Rightarrow> context2d \<Rightarrow> context2d" where
  "setGlobalAlpha v cx = (if 0 \<le> v \<and> v \<le> 1 then cx\<lparr> globalAlpha := v \<rparr> else cx)"

definition setFillStyle :: "platform \<Rightarrow> string \<Rightarrow> context2d \<Rightarrow> context2d" where
  "setFillStyle pf s cx =
     (case parseColor pf s of None \<Rightarrow> cx | Some c \<Rightarrow> cx\<lparr> fillStyle := c \<rparr>)"

definition applyFilter :: "platform \<Rightarrow> canvas_filter \<Rightarrow> bitmap \<Rightarrow> bitmap" where
  "applyFilter pf f src = (case f of NoFilter \<Rightarrow> src | Blur n \<Rightarrow> gaussianBlur pf n src)"

text \<open>The drawing model shared by \<^verbatim>\<open>fill\<close>, \<^verbatim>\<open>fillRect\<close> and \<^verbatim>\<open>drawImage\<close>.\<close>

definition paint :: "platform \<Rightarrow> bitmap \<Rightarrow> context2d \<Rightarrow> context2d" where
  "paint pf src cx =
     cx\<lparr> bitmap := (\<lambda>x y.
            if x < width cx \<and> y < height cx
            then blendPixel (globalCompositeOperation cx)
                   (scaleAlpha (globalAlpha cx) (applyFilter pf (filterAttr cx) src x y))
                   (bitmap cx x y)
            else bitmap cx x y) \<rparr>"

definition clearRect :: "nat \<Rightarrow> nat \<Rightarrow> nat \<Rightarrow> nat \<Rightarrow> context2d \<Rightarrow> context2d" where
  "clearRect x0 y0 w h cx =
     cx\<lparr> bitmap := (\<lambda>x y.
            if x < width cx \<and> y < height cx \<and> x0 \<le> x \<and> x < x0 + w \<and> y0 \<le> y \<and> y < y0 + h
            then transparent else bitmap cx x y) \<rparr>"

definition fillRect :: "platform \<Rightarrow> nat \<Rightarrow> nat \<Rightarrow> nat \<Rightarrow> nat \<Rightarrow> context2d \<Rightarrow> context2d" where
  "fillRect pf x0 y0 w h cx =
     paint pf (\<lambda>x y. if x0 \<le> x \<and> x < x0 + w \<and> y0 \<le> y \<and> y < y0 + h
                      then premultiply (fillStyle cx) else transparent) cx"

text \<open>Path building.\<close>

definition beginPath :: "context2d \<Rightarrow> context2d" where
  "beginPath cx = cx\<lparr> path := [] \<rparr>"

definition moveTo :: "point \<Rightarrow> context2d \<Rightarrow> context2d" where
  "moveTo p cx = cx\<lparr> path := path cx @ [\<lparr> points = [p], closed = False \<rparr>] \<rparr>"

definition lineTo :: "point \<Rightarrow> context2d \<Rightarrow> context2d" where
  "lineTo p cx =
     (if path cx = [] then moveTo p cx
      else cx\<lparr> path := butlast (path cx) @
                        [(last (path cx))\<lparr> points := points (last (path cx)) @ [p] \<rparr>] \<rparr>)"

definition closePath :: "context2d \<Rightarrow> context2d" where
  "closePath cx =
     (if path cx = [] then cx
      else cx\<lparr> path := butlast (path cx) @
                        [(last (path cx))\<lparr> closed := True \<rparr>,
                         \<lparr> points = take 1 (points (last (path cx))), closed = False \<rparr>] \<rparr>)"

text \<open>
  \<^verbatim>\<open>fill()\<close>: the fill style, weighted pixel by pixel with the coverage that
  the rasteriser gives the current path, goes through the drawing model.
\<close>

definition fill :: "platform \<Rightarrow> context2d \<Rightarrow> context2d" where
  "fill pf cx =
     paint pf (\<lambda>x y. scaleAlpha (fillCoverage pf (path cx) x y) (premultiply (fillStyle cx))) cx"

text \<open>
  Runtime errors of the platform that the program can run into: reading a property of
  \<^verbatim>\<open>undefined\<close>, and drawing an image of a canvas without pixels.
\<close>

datatype error = TypeError | InvalidStateError

text \<open>
  \<^verbatim>\<open>drawImage(canvas, dx, dy)\<close> with another canvas as the image: its bitmap is the
  source, whatever the attributes of its context are.
\<close>

definition drawImage :: "platform \<Rightarrow> context2d \<Rightarrow> nat \<Rightarrow> nat \<Rightarrow> context2d \<Rightarrow> context2d \<times> error option" where
  "drawImage pf img dx dy cx =
     (if width img = 0 \<or> height img = 0 then (cx, Some InvalidStateError)
      else (paint pf (\<lambda>x y. if dx \<le> x \<and> x - dx < width img \<and> dy \<le> y \<and> y - dy < height img
                             then bitmap img (x - dx) (y - dy) else transparent) cx, None))"

section \<open>ARLipstickApp\<close>

record landmark =
  lx :: real
  ly :: real

text \<open>
  The fields of the application that the rendering and the colour selection read or
  write. The canvas element and its context are one value; the status line of the page
  is the text and the class name that \<^verbatim>\<open>updateStatus\<close> assigns.
\<close>

record app =
  currentColor :: string
  opacity :: real
  blur :: int
  isLipstickEnabled :: bool
  ctx :: context2d
  statusText :: string
  statusIndicator :: string

text \<open>\<^verbatim>\<open>this.lipLandmarks.outerLip\<close>\<close>

definition outerLip :: "nat list" where
  "outerLip = [61, 84, 17, 314, 405, 320, 307, 375, 321, 308, 324, 318,
               13, 82, 81, 80, 78, 95, 88, 178, 87, 14, 317, 402, 318, 324]"

text \<open>
  \<^verbatim>\<open>landmarks[i]\<close>: \<^verbatim>\<open>undefined\<close> beyond the end of the array, and reading
  \<^verbatim>\<open>.x\<close> of it throws a TypeError.
\<close>

definition landmarkAt :: "landmark list \<Rightarrow> nat \<Rightarrow> landmark option" where
  "landmarkAt landmarks i = (if i < length landmarks then Some (landmarks ! i) else None)"

text \<open>The loop of \<^verbatim>\<open>drawLipContour\<close> over the indices after the first.\<close>

fun lineLoop :: "context2d \<Rightarrow> landmark list \<Rightarrow> nat list \<Rightarrow> nat \<Rightarrow> nat \<Rightarrow> context2d \<times> error option" where
  "lineLoop cx landmarks [] canvasWidth canvasHeight = (cx, None)"
| "lineLoop cx landmarks (i # rest) canvasWidth canvasHeight =
     (case landmarkAt landmarks i of
        None \<Rightarrow> (cx, Some TypeError)
      | Some pt \<Rightarrow>
          lineLoop (lineTo (lx pt * real canvasWidth, ly pt * real canvasHeight) cx)
            landmarks rest canvasWidth canvasHeight)"

definition drawLipContour ::
  "platform \<Rightarrow> context2d \<Rightarrow> landmark list \<Rightarrow> nat list \<Rightarrow> nat \<Rightarrow> nat \<Rightarrow> context2d \<times> error option" where
  "drawLipContour pf cx landmarks lipIndices canvasWidth canvasHeight =
     (case lipIndices of
        [] \<Rightarrow> (cx, None)
      | i0 # rest \<Rightarrow>
          (let cx1 = beginPath cx
           in case landmarkAt landmarks i0 of
                None \<Rightarrow> (cx1, Some TypeError)
              | Some firstPoint \<Rightarrow>
                  (let cx2 = moveTo (lx firstPoint * real canvasWidth,
                                     ly firstPoint * real canvasHeight) cx1
                   in case lineLoop cx2 landmarks rest canvasWidth canvasHeight of
                        (cx3, Some e) \<Rightarrow> (cx3, Some e)
                      | (cx3, None) \<Rightarrow> (fill pf (closePath cx3), None))))"

text \<open>
  \<^verbatim>\<open>drawLipstick\<close>. An exception leaves the application as it was when thrown: the
  separate canvas is local, so an error in the contour leaves the main context untouched,
  and an error of \<^verbatim>\<open>drawImage\<close> leaves the main context with the blend attributes
  already assigned.
\<close>

definition drawLipstick :: "platform \<Rightarrow> app \<Rightarrow> landmark list \<Rightarrow> app \<times> error option" where
  "drawLipstick pf a landmarks =
     (let canvasWidth = width (ctx a);
          canvasHeight = height (ctx a);
          lipCtx = newContext canvasWidth canvasHeight
      in case drawLipContour pf lipCtx landmarks outerLip canvasWidth canvasHeight of
           (lipCtx1, Some e) \<Rightarrow> (a, Some e)
         | (lipCtx1, None) \<Rightarrow>
             (let lipCtx2 = lipCtx1\<lparr> globalCompositeOperation := SourceIn \<rparr>;
                  lipCtx3 = setFillStyle pf (currentColor a) lipCtx2;
                  lipCtx4 = setGlobalAlpha (opacity a) lipCtx3;
                  lipCtx5 = fillRect pf 0 0 canvasWidth canvasHeight lipCtx4;
                  lipCtx6 = (if blur a > 0 then lipCtx5\<lparr> filterAttr := Blur (blur a) \<rparr>
                             else lipCtx5);
                  cx1 = (ctx a)\<lparr> globalCompositeOperation := Multiply \<rparr>;
                  cx2 = setGlobalAlpha (opacity a) cx1
              in case drawImage pf lipCtx6 0 0 cx2 of
                   (cx3, Some e) \<Rightarrow> (a\<lparr> ctx := cx3 \<rparr>, Some e)
                 | (cx3, None) \<Rightarrow>
                     (let cx4 = cx3\<lparr> globalCompositeOperation := SourceOver \<rparr>;
                          cx5 = setGlobalAlpha 1 cx4
                      in (a\<lparr> ctx := cx5 \<rparr>, None))))"

text \<open>
  Two intermediate values of \<^verbatim>\<open>drawLipstick\<close>, named for the statements below.
  The mask is the separate canvas right after \<^verbatim>\<open>drawLipContour\<close>; its alpha
  channel is the coverage of the contour. The layer is the separate canvas as it stands
  when it is drawn onto the main canvas, the filter attribute left aside: the mask with the
  colour filled over it with \<^verbatim>\<open>source-in\<close>.
\<close>

definition lipMask :: "platform \<Rightarrow> app \<Rightarrow> landmark list \<Rightarrow> context2d" where
  "lipMask pf a landmarks =
     fst (drawLipContour pf (newContext (width (ctx a)) (height (ctx a))) landmarks outerLip
            (width (ctx a)) (height (ctx a)))"

definition lipLayer :: "platform \<Rightarrow> app \<Rightarrow> landmark list \<Rightarrow> context2d" where
  "lipLayer pf a landmarks =
     (let canvasWidth = width (ctx a); canvasHeight = height (ctx a)
      in fillRect pf 0 0 canvasWidth canvasHeight
           (setGlobalAlpha (opacity a)
              (setFillStyle pf (currentColor a)
                 ((fst (drawLipContour pf (newContext canvasWidth canvasHeight) landmarks outerLip
                          canvasWidth canvasHeight))
                    \<lparr> globalCompositeOperation := SourceIn \<rparr>))))"

text \<open>The detector's result: \<^verbatim>\<open>multiFaceLandmarks\<close> may be missing.\<close>

record results =
  multiFaceLandmarks :: "landmark list list option"

definition processFaceMeshResults :: "platform \<Rightarrow> app \<Rightarrow> results \<Rightarrow> app \<times> error option" where
  "processFaceMeshResults pf a res =
     (let a1 = a\<lparr> ctx := clearRect 0 0 (width (ctx a)) (height (ctx a)) (ctx a) \<rparr>
      in case multiFaceLandmarks res of
           None \<Rightarrow> (a1, None)
         | Some faces \<Rightarrow>
             if length faces > 0
             then (let landmarks = faces ! 0
                   in if isLipstickEnabled a1 then drawLipstick pf a1 landmarks else (a1, None))
             else (a1, None))"

definition updateStatus :: "string \<Rightarrow> string \<Rightarrow> app \<Rightarrow> app" where
  "updateStatus message status a =
     a\<lparr> statusText := message, statusIndicator := ''status-indicator '' @ status \<rparr>"

definition selectPresetColor :: "string \<Rightarrow> app \<Rightarrow> app" where
  "selectPresetColor c a =
     updateStatus ''Lipstick applied'' ''online''
       (a\<lparr> currentColor := c, isLipstickEnabled := True \<rparr>)"

text \<open>
  The polygon that a region describes on a frame: the landmarks at the region's indices,
  in the region's order, scaled to pixels.
\<close>

definition regionPolygon :: "landmark list \<Rightarrow> nat list \<Rightarrow> nat \<Rightarrow> nat \<Rightarrow> point list" where
  "regionPolygon landmarks region w h =
     map (\<lambda>i. (lx (landmarks ! i) * real w, ly (landmarks ! i) * real h)) region"

section \<open>The non-zero winding rule\<close>

text \<open>
  The reference against which the rasteriser is judged. The winding number of a closed
  polygon around a point is counted edge by edge: an edge crossing the horizontal line
  through the point upwards with the point on its left adds one, an edge crossing it
  downwards with the point on its right subtracts one. Every subpath counts as closed for
  filling, and the winding numbers of the subpaths add up.
\<close>

definition isLeft :: "point \<Rightarrow> point \<Rightarrow> point \<Rightarrow> real" where
  "isLeft a b p = (fst b - fst a) * (snd p - snd a) - (fst p - fst a) * (snd b - snd a)"

definition edgeWinding :: "point \<Rightarrow> point \<times> point \<Rightarrow> int" where
  "edgeWinding p e =
     (let a = fst e; b = snd e
      in if snd a \<le> snd p
         then (if snd p < snd b \<and> 0 < isLeft a b p then 1 else 0)
         else (if snd b \<le> snd p \<and> isLeft a b p < 0 then - 1 else 0))"

definition windingNumber :: "point list \<Rightarrow> point \<Rightarrow> int" where
  "windingNumber ps p = sum_list (map (edgeWinding p) (zip ps (rotate1 ps)))"

definition pathWinding :: "subpath list \<Rightarrow> point \<Rightarrow> int" where
  "pathWinding sps p = sum_list (map (\<lambda>sp. windingNumber (points sp) p) sps)"

text \<open>
  The pixel \<open>(x, y)\<close> is the unit square with that lower corner. It lies strictly inside
  a polygon when the winding number is not zero at every point of the square, and strictly
  outside when it is zero at every point of the square. A pixel that the boundary cuts is
  neither.
\<close>

definition pixelSquare :: "nat \<Rightarrow> nat \<Rightarrow> point set" where
  "pixelSquare x y =
     {p. real x \<le> fst p \<and> fst p \<le> real x + 1 \<and> real y \<le> snd p \<and> snd p \<le> real y + 1}"

definition pixelInside :: "point list \<Rightarrow> nat \<Rightarrow> nat \<Rightarrow> bool" where
  "pixelInside ps x y = (\<forall>p \<in> pixelSquare x y. windingNumber ps p \<noteq> 0)"

definition pixelOutside :: "point list \<Rightarrow> nat \<Rightarrow> nat \<Rightarrow> bool" where
  "pixelOutside ps x y = (\<forall>p \<in> pixelSquare x y. windingNumber ps p = 0)"

text \<open>
  What the fill rule asks of a rasteriser, whatever it does to the pixels that the
  boundary cuts: full coverage where the path winds around every point of the pixel, none
  where it winds around no point of it.
\<close>

definition nonZeroRasteriser :: "platform \<Rightarrow> bool" where
  "nonZeroRasteriser pf =
     (\<forall>sps x y.
        ((\<forall>p \<in> pixelSquare x y. pathWinding sps p \<noteq> 0) \<longrightarrow> fillCoverage pf sps x y = 1) \<and>
        ((\<forall>p \<in> pixelSquare x y. pathWinding sps p = 0) \<longrightarrow> fillCoverage pf sps x y = 0))"

section \<open>Sample inputs\<close>

text \<open>The application as its constructor builds it, with a canvas of the given size.\<close>

definition initialApp :: "nat \<Rightarrow> nat \<Rightarrow> app" where
  "initialApp w h =
     \<lparr> currentColor = ''#FF6B6B'', opacity = 7 / 10, blur = 1, isLipstickEnabled = True,
       ctx = newContext w h, statusText = [], statusIndicator = [] \<rparr>"

text \<open>
  A browser that reads colours in the six-digit hexadecimal notation, whose blur spreads
  every pixel over itself and its right-hand neighbour, and whose rasteriser takes four
  samples in every pixel, so that a pixel cut by the boundary gets a coverage between 0
  and 1.
\<close>

definition sampleCoverage :: "subpath list \<Rightarrow> nat \<Rightarrow> nat \<Rightarrow> real" where
  "sampleCoverage sps x y =
     sum_list (map (\<lambda>d. if pathWinding sps (real x + fst d, real y + snd d) \<noteq> 0 then 1 else 0)
                 [(1 / 4, 1 / 4), (3 / 4, 1 / 4), (1 / 4, 3 / 4), (3 / 4, 3 / 4)]) / 4"

definition hexColor :: "rgb \<Rightarrow> color" where
  "hexColor v =
     \<lparr> colR = real_of_int (red v) / 255, colG = real_of_int (green v) / 255,
       colB = real_of_int (blue v) / 255, colA = 1 \<rparr>"

definition samplePlatform :: platform where
  "samplePlatform =
     \<lparr> gaussianBlur = (\<lambda>n src x y.
          \<lparr> pxR = (pxR (src x y) + pxR (src (Suc x) y)) / 2,
            pxG = (pxG (src x y) + pxG (src (Suc x) y)) / 2,
            pxB = (pxB (src x y) + pxB (src (Suc x) y)) / 2,
            pxA = (pxA (src x y) + pxA (src (Suc x) y)) / 2 \<rparr>),
       parseColor = (\<lambda>s. map_option hexColor (hexToRgb s)),
       fillCoverage = sampleCoverage \<rparr>"

text \<open>The constructor's application with full opacity, no blur and an all-white canvas.\<close>

definition whiteApp :: "nat \<Rightarrow> nat \<Rightarrow> app" where
  "whiteApp w h =
     (initialApp w h)\<lparr> opacity := 1, blur := 0,
                        ctx := (newContext w h)\<lparr> bitmap := (\<lambda>x y. opaqueWhite) \<rparr> \<rparr>"

text \<open>
  A frame of 478 landmarks whose outer-lip contour is the unit square: the landmarks 61,
  84 and 17 are three of its corners and every other landmark is the fourth.
\<close>

definition squareFace :: "landmark list" where
  "squareFace =
     (replicate 478 \<lparr> lx = 0, ly = 1 \<rparr>)
       [61 := \<lparr> lx = 0, ly = 0 \<rparr>, 84 := \<lparr> lx = 1, ly = 0 \<rparr>, 17 := \<lparr> lx = 1, ly = 1 \<rparr>]"



section \<open>Properties of ColorUtils\<close>

lemma isHexDigit_elim:
  assumes "isHexDigit c"
  shows "c = CHR ''0'' \<or> c = CHR ''1'' \<or> c = CHR ''2'' \<or> c = CHR ''3'' \<or> c = CHR ''4'' \<or>
         c = CHR ''5'' \<or> c = CHR ''6'' \<or> c = CHR ''7'' \<or> c = CHR ''8'' \<or> c = CHR ''9'' \<or>
         c = CHR ''a'' \<or> c = CHR ''b'' \<or> c = CHR ''c'' \<or> c = CHR ''d'' \<or> c = CHR ''e'' \<or>
         c = CHR ''f'' \<or> c = CHR ''A'' \<or> c = CHR ''B'' \<or> c = CHR ''C'' \<or> c = CHR ''D'' \<or>
         c = CHR ''E'' \<or> c = CHR ''F''"
  using assms unfolding isHexDigit_def by simp

lemma hexDigit_cases:
  "isHexDigit c \<Longrightarrow> hexValue c < 16 \<and> hexDigitChar (hexValue c) = toLowerAscii c"
  by (drule isHexDigit_elim, elim disjE; hypsubst;
      simp add: hexValue_def hexDigitChar_def toLowerAscii_def)

lemma hexDigit_upper:
  "isHexDigit c \<Longrightarrow> (toLowerAscii c = c) = (c \<notin> set ''ABCDEF'')"
  by (drule isHexDigit_elim, elim disjE; hypsubst; simp add: toLowerAscii_def)


lemma toString16nat_step:
  "0 < n \<Longrightarrow> d < 16 \<Longrightarrow> toString16nat (16 * n + d) = toString16nat n @ [hexDigitChar d]"
  by (subst toString16nat.simps) simp

lemma toString16nat_one: "toString16nat 1 = ''1''"
  by (simp add: toString16nat.simps hexDigitChar_def)

lemma toInt32_id: "0 \<le> x \<Longrightarrow> x < 2 ^ 31 \<Longrightarrow> toInt32 x = x"
proof -
  assume a: "0 \<le> x" "x < 2 ^ 31"
  then have "x < 2 ^ 32" by simp
  with a have "x mod 2 ^ 32 = x" by (simp only: mod_pos_pos_trivial)
  with a show ?thesis unfolding toInt32_def Let_def by simp
qed

lemma shl32_small:
  assumes "0 \<le> v" "v < 256" "n \<le> 16"
  shows "shl32 v n = v * 2 ^ n"
proof -
  have p: "(2::int) ^ n \<le> 2 ^ 16" using assms(3) by (intro power_increasing) simp_all
  have "v * 2 ^ n \<le> 255 * 2 ^ n" using assms by (intro mult_right_mono) simp_all
  also have "\<dots> \<le> 255 * 2 ^ 16" using p by (intro mult_left_mono) simp_all
  finally have b: "v * 2 ^ n < 2 ^ 31" by simp
  have c: "0 \<le> v * 2 ^ n" using assms by simp
  have d: "toInt32 v = v" using assms by (intro toInt32_id) simp_all
  have e: "n mod 32 = n" using assms by simp
  show ?thesis unfolding shl32_def d e by (rule toInt32_id[OF c b])
qed

lemma shl32_one_24: "shl32 1 24 = 16777216"
  by (simp add: shl32_def toInt32_def)

lemma rgbToHex_digits:
  fixes a1 a2 g1 g2 b1 b2 :: nat
  assumes "a1 < 16" "a2 < 16" "g1 < 16" "g2 < 16" "b1 < 16" "b2 < 16"
  shows "rgbToHex (16 * int a1 + int a2) (16 * int g1 + int g2) (16 * int b1 + int b2)
         = CHR ''#'' # map hexDigitChar [a1, a2, g1, g2, b1, b2]"
proof -
  let ?r = "16 * int a1 + int a2" and ?g = "16 * int g1 + int g2" and ?b = "16 * int b1 + int b2"
  let ?N = "16 * (16 * (16 * (16 * (16 * (16 * 1 + a1) + a2) + g1) + g2) + b1) + b2"
  have r: "shl32 ?r 16 = ?r * 2 ^ 16" using assms by (intro shl32_small) simp_all
  have g: "shl32 ?g 8 = ?g * 2 ^ 8" using assms by (intro shl32_small) simp_all
  have sum: "shl32 1 24 + shl32 ?r 16 + shl32 ?g 8 + ?b = int ?N"
    unfolding r g shl32_one_24 by simp
  have "toString16 (int ?N) = toString16nat ?N"
    by (simp only: toString16_def nat_int of_nat_less_0_iff if_False)
  also have "\<dots> = ''1'' @ map hexDigitChar [a1, a2, g1, g2, b1, b2]"
  proof -
    let ?n1 = "16 * 1 + a1"
    let ?n2 = "16 * ?n1 + a2"
    let ?n3 = "16 * ?n2 + g1"
    let ?n4 = "16 * ?n3 + g2"
    let ?n5 = "16 * ?n4 + b1"
    have t1: "toString16nat ?n1 = toString16nat 1 @ [hexDigitChar a1]"
      by (rule toString16nat_step) (simp_all add: assms)
    have t2: "toString16nat ?n2 = toString16nat ?n1 @ [hexDigitChar a2]"
      by (rule toString16nat_step) (simp_all add: assms)
    have t3: "toString16nat ?n3 = toString16nat ?n2 @ [hexDigitChar g1]"
      by (rule toString16nat_step) (simp_all add: assms)
    have t4: "toString16nat ?n4 = toString16nat ?n3 @ [hexDigitChar g2]"
      by (rule toString16nat_step) (simp_all add: assms)
    have t5: "toString16nat ?n5 = toString16nat ?n4 @ [hexDigitChar b1]"
      by (rule toString16nat_step) (simp_all add: assms)
    have t6: "toString16nat ?N = toString16nat ?n5 @ [hexDigitChar b2]"
      by (rule toString16nat_step) (simp_all add: assms)
    show ?thesis
      by (simp only: t6 t5 t4 t3 t2 t1 toString16nat_one list.map append.simps append_assoc)
  qed
  finally show ?thesis unfolding rgbToHex_def sum by simp
qed




lemma length6:
  "length xs = 6 \<Longrightarrow> \<exists>a b c d e f. xs = [a, b, c, d, e, f]"
  by (auto simp: eval_nat_numeral length_Suc_conv)

lemma parseInt16_pair: "parseInt16 [a, b] = 16 * int (hexValue a) + int (hexValue b)"
  by (simp add: parseInt16_def)

lemma hexToRgb_SomeD:
  assumes "hexToRgb c = Some v"
  shows "\<exists>c1 c2 c3 c4 c5 c6. stripHash c = [c1, c2, c3, c4, c5, c6] \<and>
           isHexDigit c1 \<and> isHexDigit c2 \<and> isHexDigit c3 \<and>
           isHexDigit c4 \<and> isHexDigit c5 \<and> isHexDigit c6 \<and>
           red v = 16 * int (hexValue c1) + int (hexValue c2) \<and>
           green v = 16 * int (hexValue c3) + int (hexValue c4) \<and>
           blue v = 16 * int (hexValue c5) + int (hexValue c6)"
proof -
  from assms have len: "length (stripHash c) = 6" and hex: "list_all isHexDigit (stripHash c)"
    by (auto simp: hexToRgb_def Let_def split: if_splits)
  from length6[OF len] obtain c1 c2 c3 c4 c5 c6 where b: "stripHash c = [c1, c2, c3, c4, c5, c6]"
    by blast
  from assms b have "v = \<lparr> red = parseInt16 [c1, c2], green = parseInt16 [c3, c4],
                           blue = parseInt16 [c5, c6] \<rparr>"
    by (simp add: hexToRgb_def Let_def split: if_splits)
  with hex b show ?thesis by (simp add: parseInt16_pair)
qed

lemma rgbToHex_hexToRgb:
  assumes "hexToRgb c = Some v"
  shows "rgbToHex (red v) (green v) (blue v) = CHR ''#'' # map toLowerAscii (stripHash c)"
proof -
  from hexToRgb_SomeD[OF assms] obtain c1 c2 c3 c4 c5 c6 where
    b: "stripHash c = [c1, c2, c3, c4, c5, c6]" and
    h: "isHexDigit c1" "isHexDigit c2" "isHexDigit c3" "isHexDigit c4" "isHexDigit c5" "isHexDigit c6" and
    v: "red v = 16 * int (hexValue c1) + int (hexValue c2)"
       "green v = 16 * int (hexValue c3) + int (hexValue c4)"
       "blue v = 16 * int (hexValue c5) + int (hexValue c6)"
    by blast
  have "rgbToHex (red v) (green v) (blue v) =
        CHR ''#'' # map hexDigitChar
          [hexValue c1, hexValue c2, hexValue c3, hexValue c4, hexValue c5, hexValue c6]"
    unfolding v using h by (intro rgbToHex_digits) (simp_all add: hexDigit_cases)
  then show ?thesis using h by (simp add: b hexDigit_cases)
qed

text \<open>
  Claim C3, as the code has it: for every colour string \<open>c\<close> that \<^verbatim>\<open>hexToRgb\<close>
  accepts and that starts with \<^verbatim>\<open>#\<close>, converting to RGB and back gives \<open>c\<close> with
  its letters in lower case; the result is \<open>c\<close> itself exactly when \<open>c\<close> has no
  upper-case hexadecimal letter.
\<close>

theorem hex_roundtrip_lowercases:
  assumes "hexToRgb c = Some v" and "take 1 c = ''#''"
  shows "rgbToHex (red v) (green v) (blue v) = map toLowerAscii c \<and>
         (rgbToHex (red v) (green v) (blue v) = c \<longleftrightarrow> (\<forall>ch \<in> set c. ch \<notin> set ''ABCDEF''))"
proof -
  from assms(2) obtain body where c: "c = CHR ''#'' # body" by (cases c) auto
  then have s: "stripHash c = body" by (simp add: stripHash_def)
  have l: "toLowerAscii CHR ''#'' = CHR ''#''" by (simp add: toLowerAscii_def)
  have r: "rgbToHex (red v) (green v) (blue v) = map toLowerAscii c"
    using rgbToHex_hexToRgb[OF assms(1)] unfolding s by (simp add: c l)
  from assms(1) have "list_all isHexDigit body"
    by (auto simp: hexToRgb_def Let_def s split: if_splits)
  then have "\<forall>ch \<in> set body. (toLowerAscii ch = ch) = (ch \<notin> set ''ABCDEF'')"
    by (simp add: list_all_iff hexDigit_upper)
  then have "(map toLowerAscii body = body) = (\<forall>ch \<in> set body. ch \<notin> set ''ABCDEF'')"
    by (simp add: map_idI map_eq_conv[where g = "\<lambda>x. x", simplified])
  then show ?thesis unfolding r by (simp add: c l)
qed

theorem hex_roundtrip_lowercases_witness:
  "hexToRgb ''#ff6b6b'' = Some \<lparr>red = 255, green = 107, blue = 107\<rparr> \<and> take 1 ''#ff6b6b'' = ''#'' \<and>
   rgbToHex 255 107 107 = ''#ff6b6b''"
  using hex_roundtrip_lowercases[of "''#ff6b6b''" "\<lparr>red = 255, green = 107, blue = 107\<rparr>"]
  by (simp add: hexToRgb_def stripHash_def isHexDigit_def parseInt16_def hexValue_def
      toLowerAscii_def)

text \<open>
  The round trip is not the identity on upper-case input: \<^verbatim>\<open>#FF0000\<close> is
  accepted and comes back as \<^verbatim>\<open>#ff0000\<close>.
\<close>

theorem hex_roundtrip_uppercase_counterexample:
  "hexToRgb ''#FF0000'' = Some \<lparr>red = 255, green = 0, blue = 0\<rparr> \<and>
   rgbToHex 255 0 0 = ''#ff0000'' \<and> rgbToHex 255 0 0 \<noteq> ''#FF0000''"
  by (simp add: hexToRgb_def stripHash_def isHexDigit_def parseInt16_def hexValue_def
      rgbToHex_def toString16_def toString16nat.simps shl32_def toInt32_def hexDigitChar_def)


section \<open>Properties of the canvas and of the rendering\<close>

lemma setGlobalAlpha_fields [simp]:
  "width (setGlobalAlpha v cx) = width cx"
  "height (setGlobalAlpha v cx) = height cx"
  "bitmap (setGlobalAlpha v cx) = bitmap cx"
  "globalCompositeOperation (setGlobalAlpha v cx) = globalCompositeOperation cx"
  "filterAttr (setGlobalAlpha v cx) = filterAttr cx"
  "path (setGlobalAlpha v cx) = path cx"
  by (simp_all add: setGlobalAlpha_def)

lemma setGlobalAlpha_one [simp]: "globalAlpha (setGlobalAlpha 1 cx) = 1"
  by (simp add: setGlobalAlpha_def)

lemma paint_fields [simp]:
  "width (paint pf src cx) = width cx"
  "height (paint pf src cx) = height cx"
  "globalCompositeOperation (paint pf src cx) = globalCompositeOperation cx"
  "globalAlpha (paint pf src cx) = globalAlpha cx"
  "filterAttr (paint pf src cx) = filterAttr cx"
  "path (paint pf src cx) = path cx"
  by (simp_all add: paint_def)

text \<open>
  Claim C7, as the code has it: with the lipstick disabled nothing is composited, but the
  frame is not left as it was. Whatever the result holds, \<^verbatim>\<open>processFaceMeshResults\<close>
  clears the canvas, so that every pixel is transparent, changes nothing else in the
  application and raises no error.
\<close>

theorem disabled_lipstick_composites_nothing:
  assumes "\<not> isLipstickEnabled a"
  shows "processFaceMeshResults pf a res =
           (a\<lparr> ctx := clearRect 0 0 (width (ctx a)) (height (ctx a)) (ctx a) \<rparr>, None) \<and>
         (\<forall>x < width (ctx a). \<forall>y < height (ctx a).
            bitmap (ctx (fst (processFaceMeshResults pf a res))) x y = transparent)"
  using assms by (simp add: processFaceMeshResults_def Let_def clearRect_def split: option.splits)

text \<open>
  Claim C6, as the code has it: \<^verbatim>\<open>selectPresetColor\<close> validates nothing. Whatever
  the string, it becomes the current colour and the lipstick is enabled; opacity, blur and
  canvas stay as they were, and no error is raised.
\<close>
theorem selectPresetColor_stores_any_string:
  "currentColor (selectPresetColor c a) = c \<and> isLipstickEnabled (selectPresetColor c a) \<and>
   opacity (selectPresetColor c a) = opacity a \<and> blur (selectPresetColor c a) = blur a \<and>
   ctx (selectPresetColor c a) = ctx a"
  by (simp add: selectPresetColor_def updateStatus_def)

text \<open>
  A string that \<^verbatim>\<open>hexToRgb\<close> rejects replaces the constructor's colour all the same.
\<close>

theorem selectPresetColor_malformed_counterexample:
  "hexToRgb ''rouge'' = None \<and>
   currentColor (initialApp 1 1) = ''#FF6B6B'' \<and>
   currentColor (selectPresetColor ''rouge'' (initialApp 1 1)) = ''rouge''"
  by (simp add: selectPresetColor_def updateStatus_def initialApp_def hexToRgb_def stripHash_def)

lemma lineTo_fields [simp]:
  "width (lineTo p cx) = width cx"
  "height (lineTo p cx) = height cx"
  "bitmap (lineTo p cx) = bitmap cx"
  "globalCompositeOperation (lineTo p cx) = globalCompositeOperation cx"
  "globalAlpha (lineTo p cx) = globalAlpha cx"
  "fillStyle (lineTo p cx) = fillStyle cx"
  "filterAttr (lineTo p cx) = filterAttr cx"
  by (simp_all add: lineTo_def moveTo_def)

lemma lineTo_path:
  "path cx = sps @ [sp] \<Longrightarrow> path (lineTo p cx) = sps @ [sp\<lparr> points := points sp @ [p] \<rparr>]"
  by (simp add: lineTo_def)

text \<open>The loop either stops at the first index without a landmark, or appends every point.\<close>

lemma lineLoop_error:
  "\<exists>i \<in> set rest. length landmarks \<le> i \<Longrightarrow>
   snd (lineLoop cx landmarks rest w h) = Some TypeError \<and>
   bitmap (fst (lineLoop cx landmarks rest w h)) = bitmap cx"
proof (induction rest arbitrary: cx)
  case Nil
  then show ?case by simp
next
  case (Cons i rest)
  show ?case
  proof (cases "i < length landmarks")
    case True
    with Cons.prems have "\<exists>j \<in> set rest. length landmarks \<le> j" by auto
    from Cons.IH[OF this] True show ?thesis by (simp add: landmarkAt_def)
  next
    case False
    then show ?thesis by (simp add: landmarkAt_def)
  qed
qed

lemma lineLoop_valid:
  "\<forall>i \<in> set rest. i < length landmarks \<Longrightarrow> path cx = sps @ [sp] \<Longrightarrow>
   lineLoop cx landmarks rest w h =
     (cx\<lparr> path := sps @ [sp\<lparr> points := points sp @ regionPolygon landmarks rest w h \<rparr>] \<rparr>, None)"
proof (induction rest arbitrary: cx sp)
  case Nil
  then show ?case by (simp add: regionPolygon_def)
next
  case (Cons i rest)
  let ?p = "(lx (landmarks ! i) * real w, ly (landmarks ! i) * real h)"
  from Cons.prems have i: "i < length landmarks" and r: "\<forall>j \<in> set rest. j < length landmarks"
    by simp_all
  have p: "path (lineTo ?p cx) = sps @ [sp\<lparr> points := points sp @ [?p] \<rparr>]"
    using Cons.prems(2) by (rule lineTo_path)
  have e: "lineTo ?p cx = cx\<lparr> path := sps @ [sp\<lparr> points := points sp @ [?p] \<rparr>] \<rparr>"
    using Cons.prems(2) by (simp add: lineTo_def)
  show ?case
    using Cons.IH[OF r p] i by (simp add: landmarkAt_def regionPolygon_def e)
qed

lemma windingNumber_single [simp]: "windingNumber [p] q = 0"
  by (simp add: windingNumber_def edgeWinding_def Let_def)

lemma windingNumber_Nil [simp]: "windingNumber [] q = 0"
  by (simp add: windingNumber_def)

text \<open>What \<^verbatim>\<open>drawLipContour\<close> does on a region whose indices all have landmarks.\<close>

lemma drawLipContour_valid:
  assumes "\<forall>i \<in> set region. i < length landmarks" and "region \<noteq> []"
  shows "drawLipContour pf cx landmarks region w h =
           (fill pf (cx\<lparr> path := [\<lparr> points = regionPolygon landmarks region w h, closed = True \<rparr>,
                                    \<lparr> points = take 1 (regionPolygon landmarks region w h),
                                      closed = False \<rparr>] \<rparr>), None)"
proof -
  from assms(2) obtain i0 rest where reg: "region = i0 # rest" by (cases region) auto
  let ?p0 = "(lx (landmarks ! i0) * real w, ly (landmarks ! i0) * real h)"
  let ?cx2 = "cx\<lparr> path := [\<lparr> points = [?p0], closed = False \<rparr>] \<rparr>"
  from assms(1) reg have i0: "i0 < length landmarks" and r: "\<forall>j \<in> set rest. j < length landmarks"
    by simp_all
  have cx2: "moveTo ?p0 (beginPath cx) = ?cx2"
    by (simp add: moveTo_def beginPath_def)
  have p: "path ?cx2 = [] @ [\<lparr> points = [?p0], closed = False \<rparr>]"
    by simp
  have poly: "regionPolygon landmarks region w h = ?p0 # regionPolygon landmarks rest w h"
    by (simp add: reg regionPolygon_def)
  have loop: "lineLoop ?cx2 landmarks rest w h =
          (cx\<lparr> path := [\<lparr> points = regionPolygon landmarks region w h, closed = False \<rparr>] \<rparr>, None)"
    using lineLoop_valid[OF r p, of w h] by (simp add: poly)
  have "drawLipContour pf cx landmarks region w h =
          (fill pf (closePath (cx\<lparr> path := [\<lparr> points = regionPolygon landmarks region w h,
                                                    closed = False \<rparr>] \<rparr>)), None)"
    by (simp add: drawLipContour_def reg landmarkAt_def i0 Let_def cx2 loop)
  then show ?thesis by (simp add: closePath_def)
qed

lemma drawLipContour_error:
  assumes "\<exists>i \<in> set region. length landmarks \<le> i"
  shows "snd (drawLipContour pf cx landmarks region w h) = Some TypeError \<and>
         bitmap (fst (drawLipContour pf cx landmarks region w h)) = bitmap cx"
proof -
  from assms obtain i0 rest where reg: "region = i0 # rest" by (cases region) auto
  show ?thesis
  proof (cases "i0 < length landmarks")
    case False
    then show ?thesis by (simp add: drawLipContour_def reg landmarkAt_def beginPath_def)
  next
    case True
    let ?cx2 = "moveTo (lx (landmarks ! i0) * real w, ly (landmarks ! i0) * real h) (beginPath cx)"
    from True assms reg have "\<exists>j \<in> set rest. length landmarks \<le> j" by auto
    from lineLoop_error[OF this, of ?cx2 w h] obtain cx3 where
      l: "lineLoop ?cx2 landmarks rest w h = (cx3, Some TypeError)" and b: "bitmap cx3 = bitmap ?cx2"
      by (cases "lineLoop ?cx2 landmarks rest w h") auto
    have "bitmap ?cx2 = bitmap cx" by (simp add: moveTo_def beginPath_def)
    with b show ?thesis
      using True by (simp add: drawLipContour_def reg landmarkAt_def Let_def l)
  qed
qed

lemma pathWinding_polygon:
  "pathWinding [\<lparr> points = ps, closed = True \<rparr>, \<lparr> points = take (Suc 0) ps, closed = False \<rparr>] p
     = windingNumber ps p"
  by (cases ps) (simp_all add: pathWinding_def)

text \<open>
  A fill on a fresh canvas leaves the rasteriser's coverage of the path in the alpha
  channel, on black.
\<close>

lemma fill_newContext:
  assumes "x < w" "y < h"
  shows "bitmap (fill pf ((newContext w h)\<lparr> path := sps \<rparr>)) x y =
           \<lparr> pxR = 0, pxG = 0, pxB = 0, pxA = fillCoverage pf sps x y \<rparr>"
  using assms
  by (simp add: fill_def paint_def newContext_def applyFilter_def blendPixel_def blendChannel_def
      scaleAlpha_def premultiply_def transparent_def)

lemma fill_fields [simp]:
  "width (fill pf cx) = width cx"
  "height (fill pf cx) = height cx"
  "globalCompositeOperation (fill pf cx) = globalCompositeOperation cx"
  "globalAlpha (fill pf cx) = globalAlpha cx"
  "filterAttr (fill pf cx) = filterAttr cx"
  "fillStyle (fill pf cx) = fillStyle cx"
  "path (fill pf cx) = path cx"
  by (simp_all add: fill_def paint_def)

lemma nonZeroRasteriser_polygon:
  assumes "nonZeroRasteriser pf"
  shows "pixelInside ps x y \<Longrightarrow>
           fillCoverage pf [\<lparr> points = ps, closed = True \<rparr>,
                            \<lparr> points = take (Suc 0) ps, closed = False \<rparr>] x y = 1"
    and "pixelOutside ps x y \<Longrightarrow>
           fillCoverage pf [\<lparr> points = ps, closed = True \<rparr>,
                            \<lparr> points = take (Suc 0) ps, closed = False \<rparr>] x y = 0"
  using assms
  by (simp_all add: nonZeroRasteriser_def pixelInside_def pixelOutside_def pathWinding_polygon)

lemma pixelSquare_nonempty: "(real x, real y) \<in> pixelSquare x y"
  by (simp add: pixelSquare_def)

text \<open>
  Claim C4: on a fresh canvas of the frame's size, for a region whose indices all have
  landmarks, \<^verbatim>\<open>drawLipContour\<close> raises no error and builds the closed polygon of the
  landmarks scaled by width and height, in the region's order and closed back to the first
  point; an empty region builds and draws nothing. The alpha of every pixel of the
  resulting mask is the coverage that the browser's rasteriser gives that path. With a
  rasteriser that follows the non-zero winding rule, the mask is 1 at the pixels strictly
  inside the polygon and 0 at the pixels strictly outside it; the pixels that the boundary
  cuts are left to the rasteriser.
\<close>

theorem drawLipContour_rasterizes_region:
  assumes "\<forall>i \<in> set region. i < length landmarks" and "nonZeroRasteriser pf"
  shows "snd (drawLipContour pf (newContext w h) landmarks region w h) = None \<and>
         path (fst (drawLipContour pf (newContext w h) landmarks region w h)) =
           (if region = [] then []
            else [\<lparr> points = regionPolygon landmarks region w h, closed = True \<rparr>,
                  \<lparr> points = take 1 (regionPolygon landmarks region w h), closed = False \<rparr>]) \<and>
         (\<forall>x < w. \<forall>y < h.
            pxA (bitmap (fst (drawLipContour pf (newContext w h) landmarks region w h)) x y) =
              (if region = [] then 0
               else fillCoverage pf
                      (path (fst (drawLipContour pf (newContext w h) landmarks region w h))) x y) \<and>
            (pixelInside (regionPolygon landmarks region w h) x y \<longrightarrow>
               pxA (bitmap (fst (drawLipContour pf (newContext w h) landmarks region w h)) x y) = 1) \<and>
            (pixelOutside (regionPolygon landmarks region w h) x y \<longrightarrow>
               pxA (bitmap (fst (drawLipContour pf (newContext w h) landmarks region w h)) x y) = 0))"
proof (cases "region = []")
  case True
  have "\<not> pixelInside [] x y" for x y
    using pixelSquare_nonempty[of x y] by (auto simp: pixelInside_def)
  with True show ?thesis
    by (simp add: drawLipContour_def newContext_def regionPolygon_def transparent_def)
next
  case False
  note v = drawLipContour_valid[OF assms(1) False, of pf "newContext w h" w h]
  note r = nonZeroRasteriser_polygon[OF assms(2), of "regionPolygon landmarks region w h"]
  show ?thesis
    by (simp add: v False fill_newContext r)
qed

text \<open>
  A triangle given clockwise on a canvas of four by four pixels, rasterised with four
  samples a pixel: the pixel at the right angle is inside, the pixel in the opposite
  corner is outside, and a pixel that the hypotenuse cuts gets a quarter.
\<close>

lemma sampleCoverage_nonZero: "nonZeroRasteriser samplePlatform"
  by (simp add: nonZeroRasteriser_def samplePlatform_def sampleCoverage_def pixelSquare_def)

lemma triangle_inside: "pixelInside [(0, 0), (0, 4), (4, 0)] 0 0"
  by (auto simp: pixelInside_def pixelSquare_def windingNumber_def edgeWinding_def isLeft_def
      Let_def)

lemma triangle_outside: "pixelOutside [(0, 0), (0, 4), (4, 0)] 3 3"
  by (auto simp: pixelOutside_def pixelSquare_def windingNumber_def edgeWinding_def isLeft_def
      Let_def)

lemma triangle_cut:
  "sampleCoverage [\<lparr> points = [(0, 0), (0, 4), (4, 0)], closed = True \<rparr>,
                   \<lparr> points = [(0, 0)], closed = False \<rparr>] 0 3 = 1 / 4"
  by (simp add: sampleCoverage_def pathWinding_def windingNumber_def edgeWinding_def isLeft_def
      Let_def)

theorem drawLipContour_rasterizes_region_witness:
  "list_all (\<lambda>i. i < length [\<lparr> lx = 0, ly = 0 \<rparr>, \<lparr> lx = 0, ly = 1 \<rparr>, \<lparr> lx = 1, ly = 0 \<rparr>])
     [0, 1, 2] \<and>
   nonZeroRasteriser samplePlatform \<and>
   regionPolygon [\<lparr> lx = 0, ly = 0 \<rparr>, \<lparr> lx = 0, ly = 1 \<rparr>, \<lparr> lx = 1, ly = 0 \<rparr>] [0, 1, 2] 4 4 =
     [(0, 0), (0, 4), (4, 0)] \<and>
   pixelInside [(0, 0), (0, 4), (4, 0)] 0 0 \<and>
   pixelOutside [(0, 0), (0, 4), (4, 0)] 3 3 \<and>
   snd (drawLipContour samplePlatform (newContext 4 4)
          [\<lparr> lx = 0, ly = 0 \<rparr>, \<lparr> lx = 0, ly = 1 \<rparr>, \<lparr> lx = 1, ly = 0 \<rparr>] [0, 1, 2] 4 4) = None \<and>
   pxA (bitmap (fst (drawLipContour samplePlatform (newContext 4 4)
          [\<lparr> lx = 0, ly = 0 \<rparr>, \<lparr> lx = 0, ly = 1 \<rparr>, \<lparr> lx = 1, ly = 0 \<rparr>] [0, 1, 2] 4 4)) 0 0) = 1 \<and>
   pxA (bitmap (fst (drawLipContour samplePlatform (newContext 4 4)
          [\<lparr> lx = 0, ly = 0 \<rparr>, \<lparr> lx = 0, ly = 1 \<rparr>, \<lparr> lx = 1, ly = 0 \<rparr>] [0, 1, 2] 4 4)) 3 3) = 0 \<and>
   pxA (bitmap (fst (drawLipContour samplePlatform (newContext 4 4)
          [\<lparr> lx = 0, ly = 0 \<rparr>, \<lparr> lx = 0, ly = 1 \<rparr>, \<lparr> lx = 1, ly = 0 \<rparr>] [0, 1, 2] 4 4)) 0 3) = 1 / 4"
proof -
  let ?F = "[\<lparr> lx = 0, ly = 0 \<rparr>, \<lparr> lx = 0, ly = 1 \<rparr>, \<lparr> lx = 1, ly = 0 \<rparr>]"
  have v: "\<forall>i \<in> set [0, 1, 2]. i < length ?F" by simp
  have p: "regionPolygon ?F [0, 1, 2] 4 4 = [(0, 0), (0, 4), (4, 0)]"
    by (simp add: regionPolygon_def)
  have c: "fillCoverage samplePlatform = sampleCoverage"
    by (simp add: samplePlatform_def)
  have n: "(0::nat) < 4" "(3::nat) < 4" by simp_all
  note t = drawLipContour_rasterizes_region[OF v sampleCoverage_nonZero, of 4 4, unfolded p]
  note px = t[THEN conjunct2, THEN conjunct2, rule_format]
  from t px[OF n(1) n(1)] px[OF n(2) n(2)] px[OF n(1) n(2)]
  show ?thesis
    using p sampleCoverage_nonZero triangle_inside triangle_outside
    by (simp add: c triangle_cut)
qed

text \<open>
  Claim C5, as the code has it: a region that refers to an index without a landmark makes
  \<^verbatim>\<open>drawLipContour\<close> fail with the TypeError of reading a property of
  \<^verbatim>\<open>undefined\<close>, before anything is filled: the bitmap is untouched.
\<close>
theorem drawLipContour_missing_landmark:
  assumes "\<exists>i \<in> set region. length landmarks \<le> i"
  shows "snd (drawLipContour pf cx landmarks region w h) = Some TypeError \<and>
         bitmap (fst (drawLipContour pf cx landmarks region w h)) = bitmap cx"
  using assms by (rule drawLipContour_error)

theorem drawLipContour_missing_landmark_witness:
  "(\<exists>i \<in> set [0, 1]. length [\<lparr> lx = 0, ly = 0 \<rparr>] \<le> i) \<and>
   snd (drawLipContour samplePlatform (newContext 1 1) [\<lparr> lx = 0, ly = 0 \<rparr>] [0, 1] 1 1) = Some TypeError"
  using drawLipContour_missing_landmark[of "[0, 1]" "[\<lparr> lx = 0, ly = 0 \<rparr>]" samplePlatform "newContext 1 1" 1 1]
  by simp

text \<open>
  The failure is the runtime's TypeError; the program defines no error of its own for a
  missing landmark.
\<close>

theorem drawLipContour_error_kind_counterexample:
  "snd (drawLipContour samplePlatform (newContext 1 1) [] [0] 1 1) = Some TypeError"
  by (simp add: drawLipContour_def landmarkAt_def)

lemma drawImage_ignores_filter:
  "drawImage pf (img\<lparr> filterAttr := f \<rparr>) dx dy cx = drawImage pf img dx dy cx"
  by (simp add: drawImage_def cong: if_cong)

lemma drawLipstick_eq:
  "drawLipstick pf a landmarks =
     (case snd (drawLipContour pf (newContext (width (ctx a)) (height (ctx a))) landmarks outerLip
                  (width (ctx a)) (height (ctx a))) of
        Some e \<Rightarrow> (a, Some e)
      | None \<Rightarrow>
          (case drawImage pf (lipLayer pf a landmarks) 0 0
                  (setGlobalAlpha (opacity a) ((ctx a)\<lparr> globalCompositeOperation := Multiply \<rparr>)) of
             (cx3, Some e) \<Rightarrow> (a\<lparr> ctx := cx3 \<rparr>, Some e)
           | (cx3, None) \<Rightarrow>
               (a\<lparr> ctx := setGlobalAlpha 1 (cx3\<lparr> globalCompositeOperation := SourceOver \<rparr>) \<rparr>, None)))"
proof -
  obtain l e where c: "drawLipContour pf (newContext (width (ctx a)) (height (ctx a))) landmarks
                         outerLip (width (ctx a)) (height (ctx a)) = (l, e)"
    by (cases "drawLipContour pf (newContext (width (ctx a)) (height (ctx a))) landmarks
                         outerLip (width (ctx a)) (height (ctx a))") 
  show ?thesis
  proof (cases e)
    case (Some err)
    then show ?thesis by (simp add: drawLipstick_def Let_def c)
  next
    case None
    show ?thesis
      by (cases "0 < blur a")
         (simp_all add: drawLipstick_def lipLayer_def Let_def c None drawImage_ignores_filter)
  qed
qed

lemma lipLayer_cong:
  assumes "width (ctx b) = width (ctx a)" "height (ctx b) = height (ctx a)"
    "currentColor b = currentColor a" "opacity b = opacity a"
  shows "lipLayer pf b landmarks = lipLayer pf a landmarks"
  using assms by (simp add: lipLayer_def)

text \<open>
  Claim C2 against the code: the filter is assigned to the separate canvas after
  everything has been drawn on it, and a canvas drawn as an image contributes its bitmap
  only. The rendered frame and the outcome are the same for every blur radius as for
  radius zero, whatever the blur of the browser does.
\<close>
theorem drawLipstick_ignores_blur:
  "ctx (fst (drawLipstick pf (a\<lparr> blur := n \<rparr>) landmarks)) =
     ctx (fst (drawLipstick pf (a\<lparr> blur := 0 \<rparr>) landmarks)) \<and>
   snd (drawLipstick pf (a\<lparr> blur := n \<rparr>) landmarks) =
     snd (drawLipstick pf (a\<lparr> blur := 0 \<rparr>) landmarks)"
proof -
  have l: "lipLayer pf (a\<lparr> blur := n \<rparr>) landmarks = lipLayer pf (a\<lparr> blur := 0 \<rparr>) landmarks"
    by (rule lipLayer_cong) simp_all
  show ?thesis
    unfolding drawLipstick_eq l
    by (simp split: option.splits prod.splits)
qed

text \<open>
  Claim C10: after every invocation of \<^verbatim>\<open>drawLipstick\<close> that completes, the main
  context has the composite operation \<^verbatim>\<open>source-over\<close> and the global alpha 1.
\<close>
theorem drawLipstick_restores_compositing:
  assumes "snd (drawLipstick pf a landmarks) = None"
  shows "globalCompositeOperation (ctx (fst (drawLipstick pf a landmarks))) = SourceOver \<and>
         globalAlpha (ctx (fst (drawLipstick pf a landmarks))) = 1"
  using assms unfolding drawLipstick_eq
  by (simp split: option.splits prod.splits)

lemma clearRect_fields [simp]:
  "width (clearRect x0 y0 w h cx) = width cx"
  "height (clearRect x0 y0 w h cx) = height cx"
  "globalCompositeOperation (clearRect x0 y0 w h cx) = globalCompositeOperation cx"
  "globalAlpha (clearRect x0 y0 w h cx) = globalAlpha cx"
  "filterAttr (clearRect x0 y0 w h cx) = filterAttr cx"
  "fillStyle (clearRect x0 y0 w h cx) = fillStyle cx"
  "path (clearRect x0 y0 w h cx) = path cx"
  by (simp_all add: clearRect_def)

text \<open>Clearing the whole canvas forgets whatever was painted or cleared before.\<close>

lemma clearRect_paint:
  "clearRect 0 0 (width cx) (height cx) (paint pf src cx) = clearRect 0 0 (width cx) (height cx) cx"
  by (simp add: clearRect_def paint_def fun_eq_iff)

lemma clearRect_clearRect:
  "clearRect 0 0 (width cx) (height cx) (clearRect 0 0 (width cx) (height cx) cx) =
     clearRect 0 0 (width cx) (height cx) cx"
  by (simp add: clearRect_def fun_eq_iff)

lemma clearRect_attrs:
  "clearRect x0 y0 w h (cx\<lparr> globalCompositeOperation := m, globalAlpha := v \<rparr>) =
     (clearRect x0 y0 w h cx)\<lparr> globalCompositeOperation := m, globalAlpha := v \<rparr>"
  by (simp add: clearRect_def cong: if_cong)

lemma setGlobalAlpha_valid:
  "0 \<le> v \<Longrightarrow> v \<le> 1 \<Longrightarrow> setGlobalAlpha v cx = cx\<lparr> globalAlpha := v \<rparr>"
  by (simp add: setGlobalAlpha_def)

text \<open>
  With an opacity in the unit interval, a frame rendered on a cleared canvas does not
  depend on the blend attributes the context had, and clearing the result gives back the
  cleared canvas with the default attributes.
\<close>

lemma drawLipstick_after_clear:
  assumes o: "0 \<le> opacity a" "opacity a \<le> 1"
    and c: "clearRect 0 0 (width (ctx a)) (height (ctx a)) (ctx a) = ctx a"
    and r: "drawLipstick pf a landmarks = (a2, e)"
  shows "drawLipstick pf (a2\<lparr> ctx := clearRect 0 0 (width (ctx a2)) (height (ctx a2)) (ctx a2) \<rparr>)
           landmarks = (a2, e)"
proof -
  let ?W = "width (ctx a)" and ?H = "height (ctx a)"
  let ?cxm = "(ctx a)\<lparr> globalCompositeOperation := Multiply, globalAlpha := opacity a \<rparr>"
  have m: "\<And>cx. setGlobalAlpha (opacity a) (cx\<lparr> globalCompositeOperation := Multiply \<rparr>) =
             cx\<lparr> globalCompositeOperation := Multiply, globalAlpha := opacity a \<rparr>"
    using o by (simp add: setGlobalAlpha_valid)
  have one: "\<And>cx. setGlobalAlpha 1 cx = cx\<lparr> globalAlpha := 1 \<rparr>"
    by (simp add: setGlobalAlpha_valid)
  show ?thesis
  proof (cases "snd (drawLipContour pf (newContext ?W ?H) landmarks outerLip ?W ?H)")
    case (Some err)
    with r have "a2 = a" "e = Some err" by (simp_all add: drawLipstick_eq)
    then show ?thesis using c r by simp
  next
    case None
    show ?thesis
    proof (cases "width (lipLayer pf a landmarks) = 0 \<or> height (lipLayer pf a landmarks) = 0")
      case True
      then have di: "\<And>cx. drawImage pf (lipLayer pf a landmarks) 0 0 cx = (cx, Some InvalidStateError)"
        by (simp add: drawImage_def)
      from r None have a2: "a2 = a\<lparr> ctx := ?cxm \<rparr>" and e: "e = Some InvalidStateError"
        by (simp_all add: drawLipstick_eq m di)
      have l: "lipLayer pf (a\<lparr> ctx := ?cxm \<rparr>) landmarks = lipLayer pf a landmarks"
        by (rule lipLayer_cong) simp_all
      have cl: "clearRect 0 0 ?W ?H ?cxm = ?cxm"
        unfolding clearRect_attrs c ..
      show ?thesis
        by (simp add: a2 e cl drawLipstick_eq None l m di)
    next
      case False
      then obtain src where di: "\<And>cx. drawImage pf (lipLayer pf a landmarks) 0 0 cx = (paint pf src cx, None)"
        by (simp add: drawImage_def)
      let ?cxf = "(paint pf src ?cxm)\<lparr> globalCompositeOperation := SourceOver, globalAlpha := 1 \<rparr>"
      from r None have a2: "a2 = a\<lparr> ctx := ?cxf \<rparr>" and e: "e = None"
        by (simp_all add: drawLipstick_eq m one di)
      let ?cxc = "(ctx a)\<lparr> globalCompositeOperation := SourceOver, globalAlpha := 1 \<rparr>"
      have "clearRect 0 0 ?W ?H ?cxf =
              (clearRect 0 0 (width ?cxm) (height ?cxm) (paint pf src ?cxm))
                \<lparr> globalCompositeOperation := SourceOver, globalAlpha := 1 \<rparr>"
        by (simp add: clearRect_attrs)
      also have "\<dots> = (clearRect 0 0 ?W ?H ?cxm)\<lparr> globalCompositeOperation := SourceOver, globalAlpha := 1 \<rparr>"
        unfolding clearRect_paint by simp
      also have "\<dots> = ?cxc"
        unfolding clearRect_attrs c by simp
      finally have cl: "clearRect 0 0 ?W ?H ?cxf = ?cxc" .
      have l: "lipLayer pf (a\<lparr> ctx := ?cxc \<rparr>) landmarks = lipLayer pf a landmarks"
        by (rule lipLayer_cong) simp_all
      have "drawLipstick pf (a\<lparr> ctx := ?cxc \<rparr>) landmarks = (a\<lparr> ctx := ?cxf \<rparr>, None)"
        using None by (simp add: drawLipstick_eq l m one di)
      then show ?thesis by (simp add: a2 e cl)
    qed
  qed
qed

text \<open>
  Claim C9: with an opacity in the unit interval, processing the same result a second
  time, with the style unchanged, gives the same application state, frame included, and
  the same outcome as the first time.
\<close>
theorem processFaceMeshResults_idempotent:
  assumes "0 \<le> opacity a" "opacity a \<le> 1"
  shows "processFaceMeshResults pf (fst (processFaceMeshResults pf a res)) res =
           processFaceMeshResults pf a res"
proof -
  let ?a1 = "a\<lparr> ctx := clearRect 0 0 (width (ctx a)) (height (ctx a)) (ctx a) \<rparr>"
  have idle: "processFaceMeshResults pf ?a1 res = (?a1, None)"
    if "processFaceMeshResults pf a res = (?a1, None)"
       "\<not> (\<exists>faces. multiFaceLandmarks res = Some faces \<and> 0 < length faces \<and> isLipstickEnabled a)"
    using that(2) by (auto simp: processFaceMeshResults_def Let_def clearRect_clearRect split: option.splits)
  show ?thesis
  proof (cases "\<exists>faces. multiFaceLandmarks res = Some faces \<and> 0 < length faces \<and> isLipstickEnabled a")
    case False
    then have "processFaceMeshResults pf a res = (?a1, None)"
      by (auto simp: processFaceMeshResults_def Let_def split: option.splits)
    with idle[OF this False] show ?thesis by simp
  next
    case True
    then obtain faces where f: "multiFaceLandmarks res = Some faces" "0 < length faces"
      and en: "isLipstickEnabled a" by blast
    obtain a2 e where d: "drawLipstick pf ?a1 (faces ! 0) = (a2, e)"
      by (cases "drawLipstick pf ?a1 (faces ! 0)")
    have p: "processFaceMeshResults pf a res = (a2, e)"
      using f en d by (simp add: processFaceMeshResults_def Let_def)
    have en2: "isLipstickEnabled a2"
      using d en unfolding drawLipstick_eq by (auto split: option.splits prod.splits)
    have "drawLipstick pf (a2\<lparr> ctx := clearRect 0 0 (width (ctx a2)) (height (ctx a2)) (ctx a2) \<rparr>)
            (faces ! 0) = (a2, e)"
      using assms by (intro drawLipstick_after_clear[OF _ _ _ d]) (simp_all add: clearRect_clearRect)
    then have "processFaceMeshResults pf a2 res = (a2, e)"
      using f en2 by (simp add: processFaceMeshResults_def Let_def)
    with p show ?thesis by simp
  qed
qed

text \<open>The mask and the layer when every index of the contour has a landmark.\<close>

lemma lipMask_valid:
  assumes v: "\<forall>i \<in> set outerLip. i < length landmarks"
  shows "width (lipMask pf a landmarks) = width (ctx a)"
    and "height (lipMask pf a landmarks) = height (ctx a)"
    and "filterAttr (lipMask pf a landmarks) = NoFilter"
    and "globalAlpha (lipMask pf a landmarks) = 1"
    and "fillStyle (lipMask pf a landmarks) = \<lparr> colR = 0, colG = 0, colB = 0, colA = 1 \<rparr>"
    and "x < width (ctx a) \<Longrightarrow> y < height (ctx a) \<Longrightarrow>
         bitmap (lipMask pf a landmarks) x y =
           \<lparr> pxR = 0, pxG = 0, pxB = 0,
             pxA = fillCoverage pf
                     [\<lparr> points = regionPolygon landmarks outerLip (width (ctx a)) (height (ctx a)),
                        closed = True \<rparr>,
                      \<lparr> points = take (Suc 0)
                          (regionPolygon landmarks outerLip (width (ctx a)) (height (ctx a))),
                        closed = False \<rparr>] x y \<rparr>"
proof -
  have ne: "outerLip \<noteq> []" by (simp add: outerLip_def)
  note c = drawLipContour_valid[OF v ne, of pf "newContext (width (ctx a)) (height (ctx a))"
      "width (ctx a)" "height (ctx a)"]
  show "width (lipMask pf a landmarks) = width (ctx a)"
    "height (lipMask pf a landmarks) = height (ctx a)"
    "filterAttr (lipMask pf a landmarks) = NoFilter"
    "globalAlpha (lipMask pf a landmarks) = 1"
    "fillStyle (lipMask pf a landmarks) = \<lparr> colR = 0, colG = 0, colB = 0, colA = 1 \<rparr>"
    unfolding lipMask_def c by (simp_all add: newContext_def)
  assume "x < width (ctx a)" "y < height (ctx a)"
  then show "bitmap (lipMask pf a landmarks) x y =
           \<lparr> pxR = 0, pxG = 0, pxB = 0,
             pxA = fillCoverage pf
                     [\<lparr> points = regionPolygon landmarks outerLip (width (ctx a)) (height (ctx a)),
                        closed = True \<rparr>,
                      \<lparr> points = take (Suc 0)
                          (regionPolygon landmarks outerLip (width (ctx a)) (height (ctx a))),
                        closed = False \<rparr>] x y \<rparr>"
    unfolding lipMask_def c by (simp add: fill_newContext)
qed

lemma lipLayer_lipMask:
  "lipLayer pf a landmarks =
     fillRect pf 0 0 (width (ctx a)) (height (ctx a))
       (setGlobalAlpha (opacity a)
          (setFillStyle pf (currentColor a)
             ((lipMask pf a landmarks)\<lparr> globalCompositeOperation := SourceIn \<rparr>)))"
  by (simp add: lipLayer_def lipMask_def Let_def)

lemma lipLayer_valid:
  assumes v: "\<forall>i \<in> set outerLip. i < length landmarks"
  shows "width (lipLayer pf a landmarks) = width (ctx a)"
    and "height (lipLayer pf a landmarks) = height (ctx a)"
    and "x < width (ctx a) \<Longrightarrow> y < height (ctx a) \<Longrightarrow>
         bitmap (lipLayer pf a landmarks) x y =
           blendPixel SourceIn
             (scaleAlpha (if 0 \<le> opacity a \<and> opacity a \<le> 1 then opacity a else 1)
                (premultiply (case parseColor pf (currentColor a) of
                                None \<Rightarrow> \<lparr> colR = 0, colG = 0, colB = 0, colA = 1 \<rparr>
                              | Some c \<Rightarrow> c)))
             (bitmap (lipMask pf a landmarks) x y)"
proof -
  note m = lipMask_valid(1-5)[OF v, of pf a]
  show "width (lipLayer pf a landmarks) = width (ctx a)"
    by (simp add: lipLayer_lipMask fillRect_def setFillStyle_def m split: option.splits)
  show "height (lipLayer pf a landmarks) = height (ctx a)"
    by (simp add: lipLayer_lipMask fillRect_def setFillStyle_def m split: option.splits)
  assume "x < width (ctx a)" "y < height (ctx a)"
  then show "bitmap (lipLayer pf a landmarks) x y =
           blendPixel SourceIn
             (scaleAlpha (if 0 \<le> opacity a \<and> opacity a \<le> 1 then opacity a else 1)
                (premultiply (case parseColor pf (currentColor a) of
                                None \<Rightarrow> \<lparr> colR = 0, colG = 0, colB = 0, colA = 1 \<rparr>
                              | Some c \<Rightarrow> c)))
             (bitmap (lipMask pf a landmarks) x y)"
    by (simp add: lipLayer_lipMask fillRect_def paint_def setFillStyle_def setGlobalAlpha_def m
        applyFilter_def split: option.splits)
qed

text \<open>
  The frame after \<^verbatim>\<open>drawLipstick\<close>, pixel by pixel, when every index of the contour
  has a landmark and the main context has no filter: the layer is blended onto the
  destination with the multiply mode, its alpha scaled by the opacity a second time.
\<close>

lemma drawLipstick_pixel:
  assumes v: "\<forall>i \<in> set outerLip. i < length landmarks"
    and f: "filterAttr (ctx a) = NoFilter"
    and xy: "x < width (ctx a)" "y < height (ctx a)"
  shows "snd (drawLipstick pf a landmarks) = None"
    and "bitmap (ctx (fst (drawLipstick pf a landmarks))) x y =
           blendPixel Multiply
             (scaleAlpha (if 0 \<le> opacity a \<and> opacity a \<le> 1 then opacity a else globalAlpha (ctx a))
                (bitmap (lipLayer pf a landmarks) x y))
             (bitmap (ctx a) x y)"
proof -
  let ?W = "width (ctx a)" and ?H = "height (ctx a)"
  have ne: "outerLip \<noteq> []" by (simp add: outerLip_def)
  have c: "snd (drawLipContour pf (newContext ?W ?H) landmarks outerLip ?W ?H) = None"
    by (simp add: drawLipContour_valid[OF v ne])
  note l = lipLayer_valid(1,2)[OF v, of pf a]
  from xy have pos: "?W \<noteq> 0" "?H \<noteq> 0" by simp_all
  show "snd (drawLipstick pf a landmarks) = None"
    using pos by (simp add: drawLipstick_eq c drawImage_def l)
  show "bitmap (ctx (fst (drawLipstick pf a landmarks))) x y =
           blendPixel Multiply
             (scaleAlpha (if 0 \<le> opacity a \<and> opacity a \<le> 1 then opacity a else globalAlpha (ctx a))
                (bitmap (lipLayer pf a landmarks) x y))
             (bitmap (ctx a) x y)"
    using pos xy
    by (simp add: drawLipstick_eq c drawImage_def l paint_def f applyFilter_def setGlobalAlpha_def)
qed

text \<open>
  Claim C1: when every index of the contour has a landmark, the opacity lies in the unit
  interval and the style colour is opaque, \<^verbatim>\<open>drawLipstick\<close> completes, and at
  every opaque destination pixel the frame is \<open>dst * (1 - k) + (dst * colour) * k\<close>,
  where \<open>k\<close> is the alpha of the layer times the opacity and the alpha of the layer is
  the coverage of the mask times the opacity: the opacity enters at the clip and again at
  the blend. In particular, on a white destination pixel where the mask has full coverage,
  with opacity 1 and blur radius 0, the pixel becomes exactly the style colour.
\<close>

theorem drawLipstick_multiply_blend:
  assumes v: "\<forall>i \<in> set outerLip. i < length landmarks"
    and f: "filterAttr (ctx a) = NoFilter"
    and o: "0 \<le> opacity a" "opacity a \<le> 1"
    and c: "parseColor pf (currentColor a) = Some c" "colA c = 1"
  shows "\<forall>x < width (ctx a). \<forall>y < height (ctx a).
           pxA (bitmap (ctx a) x y) = 1 \<longrightarrow>
           snd (drawLipstick pf a landmarks) = None \<and>
           pxA (bitmap (lipLayer pf a landmarks) x y) =
             pxA (bitmap (lipMask pf a landmarks) x y) * opacity a \<and>
           bitmap (ctx (fst (drawLipstick pf a landmarks))) x y =
             (let d = bitmap (ctx a) x y;
                  k = pxA (bitmap (lipLayer pf a landmarks) x y) * opacity a
              in \<lparr> pxR = pxR d * (1 - k) + (pxR d * colR c) * k,
                   pxG = pxG d * (1 - k) + (pxG d * colG c) * k,
                   pxB = pxB d * (1 - k) + (pxB d * colB c) * k,
                   pxA = 1 \<rparr>) \<and>
           (blur a = 0 \<and> opacity a = 1 \<and> pxA (bitmap (lipMask pf a landmarks) x y) = 1 \<and>
            bitmap (ctx a) x y = opaqueWhite \<longrightarrow>
              bitmap (ctx (fst (drawLipstick pf a landmarks))) x y =
                \<lparr> pxR = colR c, pxG = colG c, pxB = colB c, pxA = 1 \<rparr>)"
proof (intro allI impI)
  fix x y
  assume xy: "x < width (ctx a)" "y < height (ctx a)" and d: "pxA (bitmap (ctx a) x y) = 1"
  let ?m = "pxA (bitmap (lipMask pf a landmarks) x y)"
  have m: "bitmap (lipMask pf a landmarks) x y = \<lparr> pxR = 0, pxG = 0, pxB = 0, pxA = ?m \<rparr>"
    by (simp add: lipMask_valid(6)[OF v xy])
  have l: "bitmap (lipLayer pf a landmarks) x y =
             \<lparr> pxR = colR c * (opacity a * ?m), pxG = colG c * (opacity a * ?m),
               pxB = colB c * (opacity a * ?m), pxA = opacity a * ?m \<rparr>"
    using o c
    by (subst lipLayer_valid(3)[OF v xy], subst (1 2 3 4) m)
       (simp add: blendPixel_def blendChannel_def scaleAlpha_def premultiply_def)
  have r: "bitmap (ctx (fst (drawLipstick pf a landmarks))) x y =
             (let d = bitmap (ctx a) x y; k = (opacity a * ?m) * opacity a
              in \<lparr> pxR = pxR d * (1 - k) + (pxR d * colR c) * k,
                   pxG = pxG d * (1 - k) + (pxG d * colG c) * k,
                   pxB = pxB d * (1 - k) + (pxB d * colB c) * k,
                   pxA = 1 \<rparr>)"
    using o d
    by (simp add: drawLipstick_pixel(2)[OF v f xy] l blendPixel_def blendChannel_def
        scaleAlpha_def Let_def algebra_simps)
  have w: "bitmap (ctx (fst (drawLipstick pf a landmarks))) x y =
             \<lparr> pxR = colR c, pxG = colG c, pxB = colB c, pxA = 1 \<rparr>"
    if "opacity a = 1" "?m = 1" "bitmap (ctx a) x y = opaqueWhite"
    using that by (simp add: r opaqueWhite_def Let_def)
  show "snd (drawLipstick pf a landmarks) = None \<and>
           pxA (bitmap (lipLayer pf a landmarks) x y) =
             pxA (bitmap (lipMask pf a landmarks) x y) * opacity a \<and>
           bitmap (ctx (fst (drawLipstick pf a landmarks))) x y =
             (let d = bitmap (ctx a) x y;
                  k = pxA (bitmap (lipLayer pf a landmarks) x y) * opacity a
              in \<lparr> pxR = pxR d * (1 - k) + (pxR d * colR c) * k,
                   pxG = pxG d * (1 - k) + (pxG d * colG c) * k,
                   pxB = pxB d * (1 - k) + (pxB d * colB c) * k,
                   pxA = 1 \<rparr>) \<and>
           (blur a = 0 \<and> opacity a = 1 \<and> pxA (bitmap (lipMask pf a landmarks) x y) = 1 \<and>
            bitmap (ctx a) x y = opaqueWhite \<longrightarrow>
              bitmap (ctx (fst (drawLipstick pf a landmarks))) x y =
                \<lparr> pxR = colR c, pxG = colG c, pxB = colB c, pxA = 1 \<rparr>)"
    using w by (simp add: drawLipstick_pixel(1)[OF v f xy] r l Let_def mult.commute)
qed

section \<open>Concrete frames\<close>

lemma newContext_fields [simp]:
  "width (newContext w h) = w"
  "height (newContext w h) = h"
  "bitmap (newContext w h) = (\<lambda>x y. transparent)"
  "globalCompositeOperation (newContext w h) = SourceOver"
  "globalAlpha (newContext w h) = 1"
  "filterAttr (newContext w h) = NoFilter"
  "path (newContext w h) = []"
  by (simp_all add: newContext_def)

lemma clearRect_newContext: "clearRect 0 0 w h (newContext w h) = newContext w h"
  by (simp add: clearRect_def newContext_def cong: if_cong)

lemma squareFace_length: "length squareFace = 478"
  by (simp add: squareFace_def)

lemma squareFace_valid: "\<forall>i \<in> set outerLip. i < length squareFace"
  by (simp add: squareFace_length outerLip_def)

lemma squareFace_polygon:
  "regionPolygon squareFace outerLip 2 2 =
     [(0, 0), (2, 0), (2, 2), (0, 2), (0, 2), (0, 2), (0, 2), (0, 2), (0, 2), (0, 2), (0, 2),
      (0, 2), (0, 2), (0, 2), (0, 2), (0, 2), (0, 2), (0, 2), (0, 2), (0, 2), (0, 2), (0, 2),
      (0, 2), (0, 2), (0, 2), (0, 2)]"
  by (simp add: regionPolygon_def squareFace_def outerLip_def)

lemma squareFace_winding:
  assumes "0 < fst p" "fst p < 2" "0 < snd p" "snd p < 2"
  shows "windingNumber (regionPolygon squareFace outerLip 2 2) p = 1"
  using assms unfolding squareFace_polygon
  by (cases p) (simp add: windingNumber_def edgeWinding_def isLeft_def Let_def)

lemma whiteApp_fields [simp]:
  "opacity (whiteApp w h) = 1"
  "blur (whiteApp w h) = 0"
  "currentColor (whiteApp w h) = ''#FF6B6B''"
  "filterAttr (ctx (whiteApp w h)) = NoFilter"
  "width (ctx (whiteApp w h)) = w"
  "height (ctx (whiteApp w h)) = h"
  "bitmap (ctx (whiteApp w h)) = (\<lambda>x y. opaqueWhite)"
  by (simp_all add: whiteApp_def initialApp_def)

lemma samplePlatform_parses:
  "parseColor samplePlatform ''#FF6B6B'' =
     Some \<lparr> colR = 1, colG = 107 / 255, colB = 107 / 255, colA = 1 \<rparr>"
  by (simp add: samplePlatform_def hexColor_def hexToRgb_def stripHash_def isHexDigit_def
      parseInt16_def hexValue_def)

lemma squareFace_mask:
  assumes "x < 2" "y < 2"
  shows "pxA (bitmap (lipMask samplePlatform (whiteApp 2 2) squareFace) x y) = 1"
proof -
  from assms have "x \<le> 1" "y \<le> 1" by simp_all
  then have r: "real x \<le> 1" "real y \<le> 1" by simp_all
  have w: "windingNumber (regionPolygon squareFace outerLip 2 2) (real x + dx, real y + dy) = 1"
    if "0 < dx" "dx < 1" "0 < dy" "dy < 1" for dx dy
    using that r by (intro squareFace_winding) simp_all
  have c: "fillCoverage samplePlatform = sampleCoverage"
    by (simp add: samplePlatform_def)
  have "bitmap (lipMask samplePlatform (whiteApp 2 2) squareFace) x y =
          \<lparr> pxR = 0, pxG = 0, pxB = 0,
            pxA = sampleCoverage
                    [\<lparr> points = regionPolygon squareFace outerLip 2 2, closed = True \<rparr>,
                     \<lparr> points = take (Suc 0) (regionPolygon squareFace outerLip 2 2),
                       closed = False \<rparr>] x y \<rparr>"
    using lipMask_valid(6)[OF squareFace_valid, where x = x and y = y and a = "whiteApp 2 2"
        and pf = samplePlatform] assms
    by (simp add: c)
  then show ?thesis
    by (simp add: sampleCoverage_def pathWinding_polygon w)
qed

text \<open>
  The constructor's colour on a white canvas of two by two pixels, the contour being the
  whole frame.
\<close>

theorem drawLipstick_multiply_blend_witness:
  "list_all (\<lambda>i. i < length squareFace) outerLip \<and>
   filterAttr (ctx (whiteApp 2 2)) = NoFilter \<and>
   0 \<le> opacity (whiteApp 2 2) \<and> opacity (whiteApp 2 2) \<le> 1 \<and>
   parseColor samplePlatform (currentColor (whiteApp 2 2)) =
     Some \<lparr> colR = 1, colG = 107 / 255, colB = 107 / 255, colA = 1 \<rparr> \<and>
   blur (whiteApp 2 2) = 0 \<and> opacity (whiteApp 2 2) = 1 \<and>
   map (\<lambda>(x, y). bitmap (ctx (whiteApp 2 2)) x y) [(0, 0), (1, 0), (0, 1), (1, 1)] =
     [opaqueWhite, opaqueWhite, opaqueWhite, opaqueWhite] \<and>
   map (\<lambda>(x, y). pxA (bitmap (lipMask samplePlatform (whiteApp 2 2) squareFace) x y))
     [(0, 0), (1, 0), (0, 1), (1, 1)] = [1, 1, 1, 1] \<and>
   snd (drawLipstick samplePlatform (whiteApp 2 2) squareFace) = None \<and>
   map (\<lambda>(x, y). bitmap (ctx (fst (drawLipstick samplePlatform (whiteApp 2 2) squareFace))) x y)
     [(0, 0), (1, 0), (0, 1), (1, 1)] =
     [\<lparr> pxR = 1, pxG = 107 / 255, pxB = 107 / 255, pxA = 1 \<rparr>,
      \<lparr> pxR = 1, pxG = 107 / 255, pxB = 107 / 255, pxA = 1 \<rparr>,
      \<lparr> pxR = 1, pxG = 107 / 255, pxB = 107 / 255, pxA = 1 \<rparr>,
      \<lparr> pxR = 1, pxG = 107 / 255, pxB = 107 / 255, pxA = 1 \<rparr>] \<and>
   bitmap (ctx (fst (drawLipstick samplePlatform ((whiteApp 2 2)\<lparr> opacity := 1 / 2 \<rparr>)
                       squareFace))) 0 0 =
     \<lparr> pxR = 1, pxG = 218 / 255, pxB = 218 / 255, pxA = 1 \<rparr>"
proof -
  have c: "parseColor samplePlatform (currentColor (whiteApp 2 2)) =
             Some \<lparr> colR = 1, colG = 107 / 255, colB = 107 / 255, colA = 1 \<rparr>"
    by (simp add: samplePlatform_parses)
  have v: "list_all (\<lambda>i. i < length squareFace) outerLip"
    using squareFace_valid by (simp add: list_all_iff)
  have two: "(0::nat) < 2" "(1::nat) < 2" by simp_all
  have op: "pxA opaqueWhite = 1" by (simp add: opaqueWhite_def)
  note t = drawLipstick_multiply_blend[OF squareFace_valid _ _ _ c, simplified, rule_format]
  have c2: "parseColor samplePlatform (currentColor ((whiteApp 2 2)\<lparr> opacity := 1 / 2 \<rparr>)) =
              Some \<lparr> colR = 1, colG = 107 / 255, colB = 107 / 255, colA = 1 \<rparr>"
    by (simp add: samplePlatform_parses)
  have m2: "lipMask samplePlatform ((whiteApp 2 2)\<lparr> opacity := 1 / 2 \<rparr>) squareFace =
              lipMask samplePlatform (whiteApp 2 2) squareFace"
    by (simp add: lipMask_def)
  note h = drawLipstick_multiply_blend[OF squareFace_valid _ _ _ c2, simplified, rule_format,
      OF two(1) two(1) op]
  have half: "bitmap (ctx (fst (drawLipstick samplePlatform ((whiteApp 2 2)\<lparr> opacity := 1 / 2 \<rparr>)
                squareFace))) 0 0 = \<lparr> pxR = 1, pxG = 218 / 255, pxB = 218 / 255, pxA = 1 \<rparr>"
    using h squareFace_mask[OF two(1) two(1)] by (simp add: m2 opaqueWhite_def Let_def)
  show ?thesis
    using c v half
      t[OF two(1) two(1) op] t[OF two(2) two(1) op] t[OF two(1) two(2) op] t[OF two(2) two(2) op]
      squareFace_mask[OF two(1) two(1)] squareFace_mask[OF two(2) two(1)]
      squareFace_mask[OF two(1) two(2)] squareFace_mask[OF two(2) two(2)]
    by (simp add: opaqueWhite_def)
qed

text \<open>
  A white canvas, the lipstick disabled and a face in the result: the frame comes back
  transparent.
\<close>

theorem disabled_lipstick_composites_nothing_witness:
  "\<not> isLipstickEnabled ((whiteApp 2 2)\<lparr> isLipstickEnabled := False \<rparr>) \<and>
   snd (processFaceMeshResults samplePlatform ((whiteApp 2 2)\<lparr> isLipstickEnabled := False \<rparr>)
          \<lparr> multiFaceLandmarks = Some [squareFace] \<rparr>) = None \<and>
   map (\<lambda>(x, y). bitmap (ctx (fst (processFaceMeshResults samplePlatform
                                       ((whiteApp 2 2)\<lparr> isLipstickEnabled := False \<rparr>)
                                       \<lparr> multiFaceLandmarks = Some [squareFace] \<rparr>))) x y)
     [(0, 0), (1, 0), (0, 1), (1, 1)] =
     [transparent, transparent, transparent, transparent]"
  using disabled_lipstick_composites_nothing[of "(whiteApp 2 2)\<lparr> isLipstickEnabled := False \<rparr>"
      samplePlatform "\<lparr> multiFaceLandmarks = Some [squareFace] \<rparr>"]
  by auto

text \<open>
  The frame is not left bit-identical: the white pixel of the input is transparent after
  the callback.
\<close>

theorem disabled_lipstick_clears_counterexample:
  "\<not> isLipstickEnabled ((whiteApp 2 2)\<lparr> isLipstickEnabled := False \<rparr>) \<and>
   bitmap (ctx ((whiteApp 2 2)\<lparr> isLipstickEnabled := False \<rparr>)) 0 0 = opaqueWhite \<and>
   bitmap (ctx (fst (processFaceMeshResults samplePlatform
                       ((whiteApp 2 2)\<lparr> isLipstickEnabled := False \<rparr>)
                       \<lparr> multiFaceLandmarks = Some [squareFace] \<rparr>))) 0 0 = transparent \<and>
   transparent \<noteq> opaqueWhite"
  by (simp add: processFaceMeshResults_def Let_def clearRect_def transparent_def opaqueWhite_def)

text \<open>
  Claim C8, as the code has it: for a result whose list of faces is empty,
  \<^verbatim>\<open>processFaceMeshResults\<close> clears the whole canvas, draws nothing, raises no
  error and changes nothing else in the application.
\<close>
theorem empty_result_clears_canvas:
  assumes "multiFaceLandmarks res = Some []"
  shows "processFaceMeshResults pf a res =
           (a\<lparr> ctx := clearRect 0 0 (width (ctx a)) (height (ctx a)) (ctx a) \<rparr>, None) \<and>
         (\<forall>x < width (ctx a). \<forall>y < height (ctx a).
            bitmap (ctx (fst (processFaceMeshResults pf a res))) x y = transparent)"
  using assms by (simp add: processFaceMeshResults_def Let_def clearRect_def)

theorem empty_result_clears_canvas_witness:
  "multiFaceLandmarks \<lparr> multiFaceLandmarks = Some [] \<rparr> = Some [] \<and>
   snd (processFaceMeshResults samplePlatform (whiteApp 2 2) \<lparr> multiFaceLandmarks = Some [] \<rparr>) = None \<and>
   map (\<lambda>(x, y). bitmap (ctx (fst (processFaceMeshResults samplePlatform (whiteApp 2 2)
                                      \<lparr> multiFaceLandmarks = Some [] \<rparr>))) x y)
     [(0, 0), (1, 0), (0, 1), (1, 1)] =
     [transparent, transparent, transparent, transparent]"
  using empty_result_clears_canvas[of "\<lparr> multiFaceLandmarks = Some [] \<rparr>" samplePlatform "whiteApp 2 2"]
  by auto

text \<open>
  The application keeps no record of the kind of the last result. An empty result
  processed in the state the constructor builds gives back that very state; and with the
  lipstick disabled, an empty result and a result with a face lead to the same state.
\<close>

theorem empty_result_no_state_counterexample:
  "processFaceMeshResults samplePlatform (initialApp 2 2) \<lparr> multiFaceLandmarks = Some [] \<rparr> =
     (initialApp 2 2, None) \<and>
   processFaceMeshResults samplePlatform ((initialApp 2 2)\<lparr> isLipstickEnabled := False \<rparr>)
       \<lparr> multiFaceLandmarks = Some [] \<rparr> =
     processFaceMeshResults samplePlatform ((initialApp 2 2)\<lparr> isLipstickEnabled := False \<rparr>)
       \<lparr> multiFaceLandmarks = Some [squareFace] \<rparr>"
  by (simp add: processFaceMeshResults_def Let_def initialApp_def clearRect_newContext)

theorem processFaceMeshResults_idempotent_witness:
  "0 \<le> opacity (initialApp 2 2) \<and> opacity (initialApp 2 2) \<le> 1 \<and>
   processFaceMeshResults samplePlatform
       (fst (processFaceMeshResults samplePlatform (initialApp 2 2)
               \<lparr> multiFaceLandmarks = Some [squareFace] \<rparr>))
       \<lparr> multiFaceLandmarks = Some [squareFace] \<rparr> =
     processFaceMeshResults samplePlatform (initialApp 2 2) \<lparr> multiFaceLandmarks = Some [squareFace] \<rparr>"
  using processFaceMeshResults_idempotent[of "initialApp 2 2" samplePlatform
      "\<lparr> multiFaceLandmarks = Some [squareFace] \<rparr>"]
  by (simp add: initialApp_def)

theorem drawLipstick_restores_compositing_witness:
  "snd (drawLipstick samplePlatform (initialApp 2 2) squareFace) = None \<and>
   globalCompositeOperation (ctx (fst (drawLipstick samplePlatform (initialApp 2 2) squareFace))) = SourceOver \<and>
   globalAlpha (ctx (fst (drawLipstick samplePlatform (initialApp 2 2) squareFace))) = 1"
proof -
  have h: "snd (drawLipstick samplePlatform (initialApp 2 2) squareFace) = None"
    by (rule drawLipstick_pixel(1)[OF squareFace_valid, of _ 0 0])
       (simp_all add: initialApp_def)
  from drawLipstick_restores_compositing[OF h] h show ?thesis by simp
qed

text \<open>A blur radius of five pixels renders the frame of radius zero.\<close>

theorem drawLipstick_ignores_blur_witness:
  "ctx (fst (drawLipstick samplePlatform ((initialApp 2 2)\<lparr> blur := 5 \<rparr>) squareFace)) =
     ctx (fst (drawLipstick samplePlatform ((initialApp 2 2)\<lparr> blur := 0 \<rparr>) squareFace))"
  using drawLipstick_ignores_blur[where pf = samplePlatform and a = "initialApp 2 2" and n = 5
      and landmarks = squareFace] by simp

theorem selectPresetColor_stores_any_string_witness:
  "currentColor (selectPresetColor ''#E91E63'' (initialApp 2 2)) = ''#E91E63'' \<and>
   isLipstickEnabled (selectPresetColor ''#E91E63'' (initialApp 2 2))"
  using selectPresetColor_stores_any_string[of "''#E91E63''" "initialApp 2 2"] by simp

end
